theory Spec2Isabelle
  imports Main "HOL-Library.Sublist"
begin

section \<open>The Focus API server (src/web/focus/focusserver.py)\<close>

subsection \<open>Python values that the handlers touch\<close>

text \<open>
  An exception instance: the name of its class and what \<open>str(error)\<close> gives. The type
  stands for the instances of \<open>Exception\<close>, which is what every \<open>except Exception\<close>
  clause of the module catches; the system-exiting classes (\<open>SystemExit\<close>,
  \<open>KeyboardInterrupt\<close>) are outside the model.
\<close>

datatype exn = Exn (exn_type: string) (exn_str: string)

text \<open>
  Text that arrives with the request is a Python \<open>str\<close>: a list of Unicode code points.
  The literals of the module are ASCII and are written as HOL strings; \<open>text_of\<close> reads
  one as code points.
\<close>

type_synonym ustr = "nat list"

definition text_of :: "string \<Rightarrow> ustr" where
  "text_of s = map of_char s"

text \<open>
  JSON as far as the handlers build it: what the remote session returned (\<open>Remote\<close>, of
  a type the handlers never look into), string literals and dictionaries.
\<close>

datatype 'j json = Remote 'j | JString string | JObject "(string \<times> 'j json) list"

datatype 'j body = Text string | Bytes string | JsonBody "'j json"

record 'j response =
  body :: "'j body"
  status :: nat
  headers :: "string \<rightharpoonup> string"

text \<open>
  The three constructors of responses that the module takes from flask.
  \<open>Response(text, content_type=..., status=...)\<close> has status 200 when none is given;
  \<open>jsonify\<close> and \<open>make_response\<close> give status 200 with flask's default content types.
\<close>

definition Response :: "string \<Rightarrow> string \<Rightarrow> nat option \<Rightarrow> 'j response" where
  "Response txt content_type st =
     \<lparr>body = Text txt,
      status = (case st of None \<Rightarrow> 200 | Some s \<Rightarrow> s),
      headers = [''Content-Type'' \<mapsto> content_type]\<rparr>"

definition jsonify :: "'j \<Rightarrow> 'j response" where
  "jsonify v =
     \<lparr>body = JsonBody (Remote v), status = 200,
      headers = [''Content-Type'' \<mapsto> ''application/json'']\<rparr>"

definition make_response :: "string \<Rightarrow> 'j response" where
  "make_response contents =
     \<lparr>body = Bytes contents, status = 200,
      headers = [''Content-Type'' \<mapsto> ''text/html; charset=utf-8'']\<rparr>"

text \<open>A view function returns a response object or (in \<open>combined\<close>) a dictionary.\<close>

datatype 'j returned = Resp "'j response" | Dict "'j json"

subsection \<open>The request and what the runtime provides\<close>

record request =
  args :: "string \<rightharpoonup> ustr"
  script_root :: string
  request_headers :: "string \<rightharpoonup> string"

text \<open>
  Two things the module uses and does not define are parameters of the model:
  \<^item> \<open>get_bsn_from_request\<close> (imported from \<open>focus.saml\<close>): it returns the subject
    identifier or raises;
  \<^item> the lower-casing of the code points beyond ASCII by \<open>str.lower\<close> (Python's Unicode
    tables), which may give several code points for one.
\<close>

record runtime =
  get_bsn_from_request :: "request \<Rightarrow> exn + string"
  unicode_lower :: "nat \<Rightarrow> nat list"

definition lower_cp :: "runtime \<Rightarrow> nat \<Rightarrow> nat list" where
  "lower_cp rt c =
     (if c < 128 then [if 65 \<le> c \<and> c \<le> 90 then c + 32 else c]
      else unicode_lower rt c)"

definition lower :: "runtime \<Rightarrow> ustr \<Rightarrow> ustr" where
  "lower rt s = concat (map (lower_cp rt) s)"

text \<open>\<open>request.args.get(key, default)\<close>\<close>

definition args_get :: "request \<Rightarrow> string \<Rightarrow> ustr \<Rightarrow> ustr" where
  "args_get req k dflt = (case args req k of None \<Rightarrow> dflt | Some v \<Rightarrow> v)"

subsection \<open>The connection object\<close>

text \<open>
  \<open>FocusServer\<close> is handed a connection object and only calls its methods. The model of
  the object is the list of calls made on it so far, and for each method the outcome
  (a value or an exception) as a function of that history and of the arguments, so a
  session may answer differently after a failure or a reset.
\<close>

datatype call =
    IsAlive
  | Reset
  | Aanvragen string string
  | Jaaropgaven string string
  | Uitkeringsspecificaties string string
  | EAanvragenTozo string string
  | Document string "ustr option" bool bool

record 'j focus_connection =
  calls :: "call list"
  is_alive_outcome :: "call list \<Rightarrow> exn + bool"
  data_outcome :: "call list \<Rightarrow> call \<Rightarrow> exn + 'j"
  document_outcome :: "call list \<Rightarrow> call \<Rightarrow> exn + (string \<rightharpoonup> string)"

definition called :: "call \<Rightarrow> 'j focus_connection \<Rightarrow> 'j focus_connection" where
  "called c conn = conn\<lparr>calls := calls conn @ [c]\<rparr>"

definition conn_is_alive :: "'j focus_connection \<Rightarrow> (exn + bool) \<times> 'j focus_connection" where
  "conn_is_alive conn = (is_alive_outcome conn (calls conn), called IsAlive conn)"

text \<open>
  Modelled from the spec: the class of the connection (\<open>focus.focusconnect\<close>) is not among
  the sources; its \<open>reset()\<close> "discards the current session handle", has "no return
  value" and "never fails".
\<close>

definition conn_reset :: "'j focus_connection \<Rightarrow> 'j focus_connection" where
  "conn_reset conn = called Reset conn"

definition conn_data :: "call \<Rightarrow> 'j focus_connection \<Rightarrow> (exn + 'j) \<times> 'j focus_connection" where
  "conn_data c conn = (data_outcome conn (calls conn) c, called c conn)"

definition conn_document ::
  "string \<Rightarrow> ustr option \<Rightarrow> bool \<Rightarrow> bool \<Rightarrow> 'j focus_connection
     \<Rightarrow> (exn + (string \<rightharpoonup> string)) \<times> 'j focus_connection" where
  "conn_document bsn doc_id isBulk isDms conn =
     (document_outcome conn (calls conn) (Document bsn doc_id isBulk isDms),
      called (Document bsn doc_id isBulk isDms) conn)"

text \<open>
  \<open>d[key]\<close> on a dictionary raises \<open>KeyError\<close> when the key is absent; the text of the
  exception is the key between single quotes (character 39).
\<close>

definition getitem :: "(string \<rightharpoonup> string) \<Rightarrow> string \<Rightarrow> exn + string" where
  "getitem d k =
     (case d k of
        None \<Rightarrow> Inl (Exn ''KeyError'' (char_of (39::nat) # k @ [char_of (39::nat)]))
      | Some v \<Rightarrow> Inr v)"

text \<open>
  \<open>response.headers[key] = value\<close>: werkzeug refuses a header value that holds a
  carriage return or a line feed with \<open>ValueError\<close>, and stores any other value under
  the key.
\<close>

definition has_newline :: "string \<Rightarrow> bool" where
  "has_newline v = (CHR 0x0A \<in> set v \<or> CHR 0x0D \<in> set v)"

definition setitem_header :: "'j response \<Rightarrow> string \<Rightarrow> string \<Rightarrow> exn + 'j response" where
  "setitem_header response k v =
     (if has_newline v
      then Inl (Exn ''ValueError'' ''Header values must not contain newline characters.'')
      else Inr (response\<lparr>headers := (headers response)(k \<mapsto> v)\<rparr>))"

subsection \<open>class FocusServer\<close>

text \<open>
  A method of the server takes the connection (\<open>self._focus_connection\<close>) and returns what
  the view returns, or the exception that leaves it, with the connection afterwards.
  \<open>self._tma_certificate\<close> is read by no method. The calls of \<open>logger.error\<close> write to the
  log only and are left out.
\<close>

type_synonym 'j outcome = "(exn + 'j returned) \<times> 'j focus_connection"

definition no_connection_response :: "'j focus_connection \<Rightarrow> 'j outcome" where
  "no_connection_response conn =
     (let conn' = conn_reset conn
      in (Inr (Resp (Response ''Focus connectivity failed'' ''text/plain'' (Some 500))), conn'))"

definition parameter_error_response :: "exn \<Rightarrow> 'j response" where
  "parameter_error_response message =
     Response (''Parameter error: '' @ exn_str message) ''text/plain'' (Some 422)"

definition health :: "'j response" where
  "health = Response ''OK'' ''text/plain'' None"

definition status_data :: "'j focus_connection \<Rightarrow> 'j outcome" where
  "status_data conn =
     (case conn_is_alive conn of
        (Inr True, conn') \<Rightarrow>
          (Inr (Resp (Response ''Connectivity to Focus OK'' ''text/plain'' None)), conn')
      | (Inr False, conn') \<Rightarrow> no_connection_response conn'
      | (Inl error, conn') \<Rightarrow> no_connection_response conn')"

definition aanvragen :: "runtime \<Rightarrow> request \<Rightarrow> 'j focus_connection \<Rightarrow> 'j outcome" where
  "aanvragen rt req conn =
     (case get_bsn_from_request rt req of
        Inl error \<Rightarrow> (Inr (Resp (parameter_error_response error)), conn)
      | Inr bsn \<Rightarrow>
          (case conn_data (Aanvragen bsn (script_root req)) conn of
             (Inl error, conn') \<Rightarrow> (Inl error, conn')
           | (Inr aanvragen, conn') \<Rightarrow> (Inr (Resp (jsonify aanvragen)), conn')))"

definition combined :: "runtime \<Rightarrow> request \<Rightarrow> 'j focus_connection \<Rightarrow> 'j outcome" where
  "combined rt req conn =
     (case get_bsn_from_request rt req of
        Inl error \<Rightarrow> (Inr (Resp (parameter_error_response error)), conn)
      | Inr bsn \<Rightarrow>
          (case conn_data (Jaaropgaven bsn (script_root req)) conn of
             (Inl error, conn1) \<Rightarrow> no_connection_response conn1
           | (Inr jaaropgaven, conn1) \<Rightarrow>
               (case conn_data (Uitkeringsspecificaties bsn (script_root req)) conn1 of
                  (Inl error, conn2) \<Rightarrow> no_connection_response conn2
                | (Inr uitkeringsspec, conn2) \<Rightarrow>
                    (case conn_data (EAanvragenTozo bsn (script_root req)) conn2 of
                       (Inl error, conn3) \<Rightarrow> no_connection_response conn3
                     | (Inr tozo_documents, conn3) \<Rightarrow>
                         (Inr (Dict (JObject
                            [(''status'', JString ''OK''),
                             (''content'', JObject
                                [(''jaaropgaven'', Remote jaaropgaven),
                                 (''uitkeringsspecificaties'', Remote uitkeringsspec),
                                 (''tozodocumenten'', Remote tozo_documents)])])),
                          conn3)))))"

definition document :: "runtime \<Rightarrow> request \<Rightarrow> 'j focus_connection \<Rightarrow> 'j outcome" where
  "document rt req conn =
     (let doc_id = args req ''id'';
          isBulk = (lower rt (args_get req ''isBulk'' (text_of ''false'')) = text_of ''true'');
          isDms = (lower rt (args_get req ''isDms'' (text_of ''false'')) = text_of ''true'')
      in case get_bsn_from_request rt req of
           Inl error \<Rightarrow> (Inr (Resp (parameter_error_response error)), conn)
         | Inr bsn \<Rightarrow>
             (case conn_document bsn doc_id isBulk isDms conn of
                (Inl error, conn') \<Rightarrow> no_connection_response conn'
              | (Inr doc, conn') \<Rightarrow>
                  (case getitem doc ''contents'' of
                     Inl error \<Rightarrow> (Inl error, conn')
                   | Inr contents \<Rightarrow>
                       (let response = make_response contents
                        in case getitem doc ''fileName'' of
                             Inl error \<Rightarrow> (Inl error, conn')
                           | Inr fileName \<Rightarrow>
                               (case setitem_header response ''Content-Disposition''
                                       (''attachment; filename=\"'' @ fileName @ ''\"'') of
                                  Inl error \<Rightarrow> (Inl error, conn')
                                | Inr response \<Rightarrow>
                                    (case getitem doc ''mime_type'' of
                                       Inl error \<Rightarrow> (Inl error, conn')
                                     | Inr mime_type \<Rightarrow>
                                         (case setitem_header response ''Content-Type'' mime_type of
                                            Inl error \<Rightarrow> (Inl error, conn')
                                          | Inr response \<Rightarrow> (Inr (Resp response), conn'))))))))"

subsection \<open>Observations and concrete inputs\<close>

text \<open>What a handler added to the calls of the connection it was given.\<close>

definition new_calls :: "'j focus_connection \<Rightarrow> 'j outcome \<Rightarrow> call list" where
  "new_calls conn out = drop (length (calls conn)) (calls (snd out))"

definition plain_text :: "'j response \<Rightarrow> bool" where
  "plain_text r =
     (headers r ''Content-Type'' = Some ''text/plain'' \<and>
      (case body r of Text t \<Rightarrow> True | _ \<Rightarrow> False))"

text \<open>
  Concrete inputs at which the theorems below are instantiated: a runtime whose identity
  extraction has a fixed outcome and whose lower-casing beyond ASCII knows the Kelvin
  sign and the dotted capital I, a request with given query arguments, and a fresh
  connection with fixed answers.
\<close>

definition fixture_runtime :: "exn + string \<Rightarrow> runtime" where
  "fixture_runtime r =
     \<lparr>get_bsn_from_request = (\<lambda>req. r),
      unicode_lower = (\<lambda>c. if c = 8490 then [107] else if c = 304 then [105, 775] else [c])\<rparr>"

definition fixture_request :: "(string \<rightharpoonup> ustr) \<Rightarrow> request" where
  "fixture_request a = \<lparr>args = a, script_root = ''/api'', request_headers = Map.empty\<rparr>"

definition fixture_connection ::
  "exn + bool \<Rightarrow> (call \<Rightarrow> exn + string) \<Rightarrow> exn + (string \<rightharpoonup> string)
     \<Rightarrow> string focus_connection" where
  "fixture_connection alive data doc =
     \<lparr>calls = [], is_alive_outcome = (\<lambda>hist. alive), data_outcome = (\<lambda>hist. data),
      document_outcome = (\<lambda>hist c. doc)\<rparr>"

definition no_bsn :: exn where
  "no_bsn = Exn ''InvalidBSNException'' ''Missing SAML token''"

definition fault :: exn where
  "fault = Exn ''Fault'' ''stale session''"

definition idle_connection :: "string focus_connection" where
  "idle_connection = fixture_connection (Inr True) (\<lambda>c. Inr ''[]'') (Inr Map.empty)"

definition faulty_connection :: "string focus_connection" where
  "faulty_connection = fixture_connection (Inl fault) (\<lambda>c. Inl fault) (Inl fault)"

definition pdf_document :: "string \<Rightarrow> string \<rightharpoonup> string" where
  "pdf_document fileName =
     [''contents'' \<mapsto> ''%PDF-1.4'', ''fileName'' \<mapsto> fileName,
      ''mime_type'' \<mapsto> ''application/pdf'']"

definition pdf_connection :: "string \<Rightarrow> string focus_connection" where
  "pdf_connection fileName =
     fixture_connection (Inr True) (\<lambda>c. Inr ''[]'') (Inr (pdf_document fileName))"

text \<open>
  The test \<open>request.args.get(k, "false").lower() == "true"\<close> that \<open>document\<close> makes for
  \<open>isBulk\<close> and for \<open>isDms\<close>, as a shorthand for the statements below.
\<close>

abbreviation arg_is_true :: "runtime \<Rightarrow> request \<Rightarrow> string \<Rightarrow> bool" where
  "arg_is_true rt req k \<equiv> lower rt (args_get req k (text_of ''false'')) = text_of ''true''"

text \<open>
  The reading of a boolean query parameter in the words of the specification: absent is
  false, and a value is true when it equals \<open>true\<close> after lower-casing its ASCII letters.
\<close>

definition ascii_lower :: "ustr \<Rightarrow> ustr" where
  "ascii_lower s = map (\<lambda>c. if 65 \<le> c \<and> c \<le> 90 then c + 32 else c) s"

definition flag_spec :: "ustr option \<Rightarrow> bool" where
  "flag_spec v = (case v of None \<Rightarrow> False | Some s \<Rightarrow> ascii_lower s = text_of ''true'')"

section \<open>The symmetric addressing codec (focus.crypto)\<close>

text \<open>
  Modelled from the spec: \<open>focus.crypto\<close> is imported by the tests (\<open>encrypt\<close>) and is not
  among the sources. The specification (4.3) has \<open>encode\<close> join the three fields with a
  reserved separator, encrypt the result under an authenticated symmetric cipher and
  encode the ciphertext into a URL-safe alphabet; \<open>decode\<close> reverses the encoding and the
  decryption and splits on the separator, and fails with \<open>InvalidTokenError\<close> when the
  URL-decoding fails, when the decryption fails, or when the plaintext does not split
  into exactly three fields. The cipher, the URL-safe coding and the separator are
  parameters; a cipher that draws a nonce is one whose \<open>seal\<close> has the nonce fixed.
\<close>

record codec =
  separator :: char
  seal :: "string \<Rightarrow> string \<Rightarrow> string"
  unseal :: "string \<Rightarrow> string \<Rightarrow> string option"
  url_encode :: "string \<Rightarrow> string"
  url_decode :: "string \<Rightarrow> string option"

datatype codec_error = InvalidTokenError

text \<open>
  Modelled from the spec: splitting the plaintext on the separator, as Python's
  \<open>str.split(sep)\<close> does (the empty string gives one empty field).
\<close>

fun split_on :: "char \<Rightarrow> string \<Rightarrow> string list" where
  "split_on sep [] = [[]]"
| "split_on sep (c # cs) =
     (if c = sep then [] # split_on sep cs
      else (case split_on sep cs of [] \<Rightarrow> [[c]] | w # ws \<Rightarrow> (c # w) # ws))"

text \<open>
  Modelled from the spec: \<open>encode(fields, key)\<close> "joins the fields with a reserved
  separator", "encrypts the joined plaintext" and "encodes the ciphertext into a
  URL-safe alphabet".
\<close>

definition encode :: "codec \<Rightarrow> string \<times> string \<times> string \<Rightarrow> string \<Rightarrow> string" where
  "encode cd composite key =
     (case composite of (budget_code, admin_number, pass_number) \<Rightarrow>
        url_encode cd (seal cd key
          (budget_code @ [separator cd] @ admin_number @ [separator cd] @ pass_number)))"

text \<open>
  Modelled from the spec: \<open>decode(token, key)\<close> "reverses encoding and decryption, then
  splits on the separator", failing with \<open>InvalidTokenError\<close> "if URL-decoding fails, if
  authenticated decryption fails, or if the decrypted plaintext does not split into
  exactly the expected number of fields".
\<close>

definition decode ::
  "codec \<Rightarrow> string \<Rightarrow> string \<Rightarrow> codec_error + string \<times> string \<times> string" where
  "decode cd token key =
     (case url_decode cd token of
        None \<Rightarrow> Inl InvalidTokenError
      | Some ciphertext \<Rightarrow>
          (case unseal cd key ciphertext of
             None \<Rightarrow> Inl InvalidTokenError
           | Some plaintext \<Rightarrow>
               (case split_on (separator cd) plaintext of
                  [budget_code, admin_number, pass_number] \<Rightarrow>
                    Inr (budget_code, admin_number, pass_number)
                | _ \<Rightarrow> Inl InvalidTokenError)))"

text \<open>
  A stand-in cipher for instantiating the round trip: it prefixes the plaintext with the
  key and opens only what carries the key in front; the URL-safe coding is the identity.
\<close>

definition fixture_codec :: codec where
  "fixture_codec =
     \<lparr>separator = CHR '':'',
      seal = (\<lambda>key plaintext. key @ plaintext),
      unseal = (\<lambda>key c. if take (length key) c = key then Some (drop (length key) c) else None),
      url_encode = (\<lambda>c. c),
      url_decode = Some\<rparr>"

definition TESTKEY :: string where
  "TESTKEY = ''z4QXWk3bjwFST2HRRVidnn7Se8VFCaHscK39JfODzNs=''"

section \<open>Properties\<close>

lemmas handler_defs =
  aanvragen_def combined_def document_def status_data_def no_connection_response_def
  parameter_error_response_def conn_is_alive_def conn_reset_def conn_data_def
  conn_document_def called_def setitem_header_def

lemmas fixture_defs =
  fixture_runtime_def fixture_request_def fixture_connection_def no_bsn_def fault_def
  idle_connection_def faulty_connection_def pdf_document_def pdf_connection_def

subsection \<open>Liveness and backend status\<close>

text \<open>
  C7. \<open>health\<close> is a static method without arguments: it cannot consult or change the
  connection and has no raising branch. Its response has status 200, content type
  text/plain and body \<open>OK\<close>.
\<close>

theorem health_always_ok:
  "status (health :: 'j response) = 200 \<and> body (health :: 'j response) = Text ''OK'' \<and>
   headers (health :: 'j response) ''Content-Type'' = Some ''text/plain''"
  by (simp add: health_def Response_def)

text \<open>
  C5. \<open>status_data\<close> answers 200 in plain text exactly when \<open>is_alive()\<close> returned true,
  after the one call of \<open>is_alive\<close>; when \<open>is_alive()\<close> returned false or raised, it answers
  500 in plain text and the calls made are \<open>is_alive\<close> followed by one \<open>reset\<close>.
\<close>

theorem status_data_alive_iff:
  "(is_alive_outcome conn (calls conn) = Inr True \<longrightarrow>
      (\<exists>r. status_data conn = (Inr (Resp r), conn\<lparr>calls := calls conn @ [IsAlive]\<rparr>) \<and>
           status r = 200 \<and> plain_text r)) \<and>
   (is_alive_outcome conn (calls conn) \<noteq> Inr True \<longrightarrow>
      (\<exists>r. status_data conn = (Inr (Resp r), conn\<lparr>calls := calls conn @ [IsAlive, Reset]\<rparr>) \<and>
           status r = 500 \<and> plain_text r))"
  by (auto simp: handler_defs Response_def plain_text_def split: sum.splits bool.splits)

theorem status_data_alive_iff_witness:
  "is_alive_outcome idle_connection (calls idle_connection) = Inr True \<and>
   (\<exists>r. status_data idle_connection = (Inr (Resp r), idle_connection\<lparr>calls := [IsAlive]\<rparr>) \<and>
        status r = 200 \<and> plain_text r) \<and>
   is_alive_outcome faulty_connection (calls faulty_connection) \<noteq> Inr True \<and>
   (\<exists>r. status_data faulty_connection
           = (Inr (Resp r), faulty_connection\<lparr>calls := [IsAlive, Reset]\<rparr>) \<and>
        status r = 500 \<and> plain_text r)"
  using status_data_alive_iff [of idle_connection] status_data_alive_iff [of faulty_connection]
  by (simp add: fixture_defs)

subsection \<open>Identity extraction fails\<close>

text \<open>
  C4. When \<open>get_bsn_from_request\<close> raises, each of \<open>aanvragen\<close>, \<open>combined\<close> and \<open>document\<close>
  returns a plain-text response with status 422 whose body carries the text of the
  exception, and the connection is as it was: no remote call is made, so no subject
  identifier is used.
\<close>

theorem extraction_failure_gives_422:
  assumes "get_bsn_from_request rt req = Inl e"
      and "h \<in> {aanvragen rt req, combined rt req, document rt req}"
  shows "\<exists>r. h conn = (Inr (Resp r), conn) \<and> status r = 422 \<and> status r \<noteq> 500 \<and>
             plain_text r \<and> body r = Text (''Parameter error: '' @ exn_str e)"
  using assms by (auto simp: handler_defs Response_def plain_text_def Let_def)

theorem extraction_failure_gives_422_witness:
  "get_bsn_from_request (fixture_runtime (Inl no_bsn)) (fixture_request Map.empty) = Inl no_bsn \<and>
   (\<exists>r. document (fixture_runtime (Inl no_bsn)) (fixture_request Map.empty) idle_connection
           = (Inr (Resp r), idle_connection) \<and>
        status r = 422 \<and> body r = Text ''Parameter error: Missing SAML token'')"
  using extraction_failure_gives_422
          [of "fixture_runtime (Inl no_bsn)" "fixture_request Map.empty" no_bsn
              "document (fixture_runtime (Inl no_bsn)) (fixture_request Map.empty)"
              idle_connection]
  by (auto simp add: fixture_runtime_def no_bsn_def)

subsection \<open>Remote failures\<close>

lemma aanvragen_propagates:
  assumes "get_bsn_from_request rt req = Inr bsn"
      and "data_outcome conn (calls conn) (Aanvragen bsn (script_root req)) = Inl e"
  shows "aanvragen rt req conn =
           (Inl e, conn\<lparr>calls := calls conn @ [Aanvragen bsn (script_root req)]\<rparr>)"
  using assms by (simp add: handler_defs)

lemma combined_catches:
  assumes "get_bsn_from_request rt req = Inr bsn"
      and "data_outcome conn (calls conn) (Jaaropgaven bsn (script_root req)) = Inl e"
  shows "combined rt req conn =
           (Inr (Resp (Response ''Focus connectivity failed'' ''text/plain'' (Some 500))),
            conn\<lparr>calls := calls conn @ [Jaaropgaven bsn (script_root req), Reset]\<rparr>)"
  using assms by (simp add: handler_defs)

lemma combined_never_raises: "\<exists>v. fst (combined rt req conn) = Inr v"
  by (simp add: handler_defs split: sum.splits)

lemma document_catches:
  assumes "get_bsn_from_request rt req = Inr bsn"
      and "document_outcome conn (calls conn) (Document bsn (args req ''id'')
             (arg_is_true rt req ''isBulk'') (arg_is_true rt req ''isDms'')) = Inl e"
  shows "document rt req conn =
           (Inr (Resp (Response ''Focus connectivity failed'' ''text/plain'' (Some 500))),
            conn\<lparr>calls := calls conn @
              [Document bsn (args req ''id'') (arg_is_true rt req ''isBulk'')
                 (arg_is_true rt req ''isDms''), Reset]\<rparr>)"
  using assms by (simp add: handler_defs Let_def)

text \<open>
  C1. \<open>combined\<close> and \<open>document\<close> catch what the remote call raises, reset the connection
  and answer 500 (the three lemmas above). \<open>aanvragen\<close> does not: its remote call stands
  outside any \<open>try\<close>, so with a valid assertion and a connection whose \<open>aanvragen\<close> raises,
  the exception leaves the handler, no \<open>reset\<close> is called and no response is returned.
\<close>

theorem aanvragen_remote_exception_escapes:
  "aanvragen (fixture_runtime (Inr ''123456782'')) (fixture_request Map.empty) faulty_connection
     = (Inl fault, faulty_connection\<lparr>calls := [Aanvragen ''123456782'' ''/api'']\<rparr>) \<and>
   Reset \<notin> set (calls (snd (aanvragen (fixture_runtime (Inr ''123456782''))
                                 (fixture_request Map.empty) faulty_connection)))"
  by (simp add: handler_defs fixture_defs)

subsection \<open>Effects on the connection\<close>

text \<open>
  C9. \<open>_parameter_error_response\<close> is a static method of the message alone and has no
  access to the connection. Whenever one of the handlers returns a response with status
  422, the connection is exactly as it was before the call; and whenever a handler has
  called \<open>reset\<close>, it did so once, as the last call, and what it returned is the result of
  \<open>_no_connection_response\<close>.
\<close>

theorem reset_only_on_connectivity_failure:
  assumes "h \<in> {aanvragen rt req, combined rt req, document rt req, status_data}"
  shows "(\<forall>r. fst (h conn) = Inr (Resp r) \<and> status r = 422 \<longrightarrow> snd (h conn) = conn) \<and>
         (Reset \<in> set (new_calls conn (h conn)) \<longrightarrow>
            h conn = no_connection_response
                       ((snd (h conn))\<lparr>calls := butlast (calls (snd (h conn)))\<rparr>) \<and>
            count_list (new_calls conn (h conn)) Reset = 1)"
  using assms
  by (auto simp: handler_defs Response_def jsonify_def make_response_def new_calls_def Let_def
                 getitem_def butlast_append
           split: sum.splits bool.splits option.splits if_splits)

theorem reset_only_on_connectivity_failure_witness:
  "(\<exists>r. fst (aanvragen (fixture_runtime (Inl no_bsn)) (fixture_request Map.empty) idle_connection)
          = Inr (Resp r) \<and> status r = 422) \<and>
   snd (aanvragen (fixture_runtime (Inl no_bsn)) (fixture_request Map.empty) idle_connection)
     = idle_connection \<and>
   Reset \<in> set (new_calls faulty_connection
                  (combined (fixture_runtime (Inr ''123456782'')) (fixture_request Map.empty)
                     faulty_connection)) \<and>
   combined (fixture_runtime (Inr ''123456782'')) (fixture_request Map.empty) faulty_connection
     = no_connection_response (faulty_connection\<lparr>calls := [Jaaropgaven ''123456782'' ''/api'']\<rparr>)"
  using reset_only_on_connectivity_failure
          [of "aanvragen (fixture_runtime (Inl no_bsn)) (fixture_request Map.empty)"
              "fixture_runtime (Inl no_bsn)" "fixture_request Map.empty" idle_connection]
        reset_only_on_connectivity_failure
          [of "combined (fixture_runtime (Inr ''123456782'')) (fixture_request Map.empty)"
              "fixture_runtime (Inr ''123456782'')" "fixture_request Map.empty"
              faulty_connection]
  by (simp add: handler_defs fixture_defs Response_def new_calls_def)

subsection \<open>The document handler\<close>

lemma text_of_true: "text_of ''true'' = [116, 114, 117, 101]"
  by (simp add: text_of_def)

lemma text_of_false: "text_of ''false'' = [102, 97, 108, 115, 101]"
  by (simp add: text_of_def)

lemma absent_arg_false: "args req k = None \<Longrightarrow> \<not> arg_is_true rt req k"
  by (simp add: args_get_def text_of_true text_of_false lower_def lower_cp_def)

lemma lower_ascii_only: "\<forall>c \<in> set s. c < 128 \<Longrightarrow> lower rt s = ascii_lower s"
  by (induction s) (simp_all add: lower_def lower_cp_def ascii_lower_def)

lemma lower_parts: "lower rt s = t \<Longrightarrow> c \<in> set s \<Longrightarrow> set (lower_cp rt c) \<subseteq> set t"
  by (auto simp: lower_def)

lemma lower_true_iff:
  assumes H: "\<And>c. 128 \<le> c \<Longrightarrow>
            unicode_lower rt c \<noteq> [] \<and> set (unicode_lower rt c) \<inter> set (text_of ''true'') = {}"
  shows "lower rt s = text_of ''true'' \<longleftrightarrow> ascii_lower s = text_of ''true''"
proof
  assume L: "lower rt s = text_of ''true''"
  have "\<forall>c \<in> set s. c < 128"
  proof (rule ballI, rule ccontr)
    fix c assume c: "c \<in> set s" and "\<not> c < 128"
    then have big: "128 \<le> c" by simp
    from lower_parts [OF L c] big have "set (unicode_lower rt c) \<subseteq> set (text_of ''true'')"
      by (simp add: lower_cp_def)
    moreover from H [OF big] obtain d where "d \<in> set (unicode_lower rt c)"
      by (cases "unicode_lower rt c") auto
    ultimately show False using H [OF big] by auto
  qed
  with L show "ascii_lower s = text_of ''true''" by (simp add: lower_ascii_only)
next
  assume A: "ascii_lower s = text_of ''true''"
  have "\<forall>c \<in> set s. c < 128"
  proof
    fix c assume "c \<in> set s"
    then have "(if 65 \<le> c \<and> c \<le> 90 then c + 32 else c) \<in> set (ascii_lower s)"
      by (auto simp: ascii_lower_def)
    with A show "c < 128" by (auto simp: text_of_true split: if_splits)
  qed
  with A show "lower rt s = text_of ''true''" by (simp add: lower_ascii_only)
qed

lemma arg_is_true_spec:
  assumes H: "\<And>c. 128 \<le> c \<Longrightarrow>
            unicode_lower rt c \<noteq> [] \<and> set (unicode_lower rt c) \<inter> set (text_of ''true'') = {}"
  shows "arg_is_true rt req k = flag_spec (args req k)"
proof (cases "args req k")
  case None
  then show ?thesis
    using absent_arg_false [of req k rt] by (simp add: flag_spec_def)
next
  case (Some v)
  then show ?thesis
    by (simp add: args_get_def flag_spec_def lower_true_iff [OF H])
qed

text \<open>
  C8. \<open>str.lower\<close> gives at least one code point for each code point and never turns one
  beyond ASCII into a letter of \<open>true\<close> (the hypothesis on the runtime's table). Then,
  whenever the handler gets as far as the remote call, the flags it passes are those of
  the specification: false for an absent parameter, and for a present one true exactly
  when the value is \<open>true\<close> after ASCII lower-casing. Computing them has no failing
  branch: the call is reached for every query.
\<close>

theorem document_flags_strict:
  assumes "\<And>c. 128 \<le> c \<Longrightarrow>
            unicode_lower rt c \<noteq> [] \<and> set (unicode_lower rt c) \<inter> set (text_of ''true'') = {}"
      and "get_bsn_from_request rt req = Inr bsn"
  shows "prefix (calls conn @ [Document bsn (args req ''id'')
                   (flag_spec (args req ''isBulk'')) (flag_spec (args req ''isDms''))])
           (calls (snd (document rt req conn)))"
  using assms(2)
  by (auto simp: handler_defs Let_def arg_is_true_spec [OF assms(1)] getitem_def prefix_def
           split: sum.splits option.splits if_splits)

theorem document_flags_strict_witness:
  "prefix [Document ''123456782'' None True False]
     (calls (snd (document (fixture_runtime (Inr ''123456782''))
                    (fixture_request [''isBulk'' \<mapsto> text_of ''TrUe'', ''isDms'' \<mapsto> text_of ''1''])
                    idle_connection))) \<and>
   flag_spec (Some (text_of ''TrUe'')) \<and> \<not> flag_spec (Some (text_of ''1'')) \<and>
   \<not> flag_spec (Some (text_of ''yes'')) \<and> \<not> flag_spec None"
proof -
  have tbl: "\<And>c. 128 \<le> c \<Longrightarrow>
      unicode_lower (fixture_runtime (Inr ''123456782'')) c \<noteq> [] \<and>
      set (unicode_lower (fixture_runtime (Inr ''123456782'')) c) \<inter> set (text_of ''true'') = {}"
    by (simp add: fixture_runtime_def text_of_true)
  have bsn: "get_bsn_from_request (fixture_runtime (Inr ''123456782''))
               (fixture_request [''isBulk'' \<mapsto> text_of ''TrUe'', ''isDms'' \<mapsto> text_of ''1''])
             = Inr ''123456782''"
    by (simp add: fixture_runtime_def)
  have flags: "flag_spec (Some (text_of ''TrUe''))" "\<not> flag_spec (Some (text_of ''1''))"
    "\<not> flag_spec (Some (text_of ''yes''))" "\<not> flag_spec None"
    by (simp_all add: flag_spec_def ascii_lower_def text_of_def)
  from document_flags_strict [OF tbl bsn, of idle_connection] flags show ?thesis
    by (simp add: fixture_request_def idle_connection_def fixture_connection_def)
qed

text \<open>
  C10. A request without \<open>id\<close> is not turned away: with a subject identifier the remote
  call is made with \<open>id = None\<close>. The handler returns status 422 exactly when the identity
  extraction raised.
\<close>

theorem document_missing_id_forwarded:
  "(get_bsn_from_request rt req = Inr bsn \<and> args req ''id'' = None \<longrightarrow>
      prefix (calls conn @ [Document bsn None (arg_is_true rt req ''isBulk'')
                              (arg_is_true rt req ''isDms'')])
        (calls (snd (document rt req conn)))) \<and>
   ((\<exists>r. fst (document rt req conn) = Inr (Resp r) \<and> status r = 422) \<longleftrightarrow>
      (\<exists>e. get_bsn_from_request rt req = Inl e))"
  by (auto simp: handler_defs Let_def getitem_def prefix_def Response_def make_response_def
           split: sum.splits option.splits if_splits)

theorem document_missing_id_forwarded_witness:
  "get_bsn_from_request (fixture_runtime (Inr ''123456782'')) (fixture_request Map.empty)
     = Inr ''123456782'' \<and>
   args (fixture_request Map.empty) ''id'' = None \<and>
   prefix [Document ''123456782'' None False False]
     (calls (snd (document (fixture_runtime (Inr ''123456782'')) (fixture_request Map.empty)
                    idle_connection))) \<and>
   \<not> (\<exists>r. fst (document (fixture_runtime (Inr ''123456782'')) (fixture_request Map.empty)
                  idle_connection) = Inr (Resp r) \<and> status r = 422) \<and>
   (\<exists>e. get_bsn_from_request (fixture_runtime (Inl no_bsn)) (fixture_request Map.empty) = Inl e) \<and>
   (\<exists>r. fst (document (fixture_runtime (Inl no_bsn)) (fixture_request Map.empty)
                idle_connection) = Inr (Resp r) \<and> status r = 422)"
  using document_missing_id_forwarded
          [of "fixture_runtime (Inr ''123456782'')" "fixture_request Map.empty" "''123456782''"
              idle_connection]
        document_missing_id_forwarded
          [of "fixture_runtime (Inl no_bsn)" "fixture_request Map.empty" "''123456782''"
              idle_connection]
        absent_arg_false [of "fixture_request Map.empty" _ "fixture_runtime (Inr ''123456782'')"]
  by (simp add: fixture_defs)




lemma document_line_break_in_file_name:
  "fst (document (fixture_runtime (Inr ''123456782'')) (fixture_request Map.empty)
          (pdf_connection [CHR ''a'', CHR 0x0A, CHR ''b'']))
     = Inl (Exn ''ValueError'' ''Header values must not contain newline characters.'')"
  by (simp add: handler_defs fixture_defs Let_def getitem_def make_response_def has_newline_def)

section \<open>Properties of the codec\<close>

lemma split_on_no_sep: "sep \<notin> set w \<Longrightarrow> split_on sep w = [w]"
  by (induction w) auto

lemma split_on_field:
  "sep \<notin> set w \<Longrightarrow> split_on sep (w @ sep # rest) = w # split_on sep rest"
  by (induction w) auto

lemma split_on_three:
  assumes "sep \<notin> set a" "sep \<notin> set b" "sep \<notin> set c"
  shows "split_on sep (a @ [sep] @ b @ [sep] @ c) = [a, b, c]"
  using assms by (simp add: split_on_field split_on_no_sep)

text \<open>
  C2. For a cipher that opens under a key what it sealed under that key, and a URL-safe
  coding that decodes what it encoded, a composite key whose three fields are free of
  the separator comes back from \<open>decode\<close> of its \<open>encode\<close> under the same secret key; empty
  fields are not excluded.
\<close>

theorem decode_encode_roundtrip:
  assumes "\<And>p. unseal cd K (seal cd K p) = Some p"
      and "\<And>c. url_decode cd (url_encode cd c) = Some c"
      and "separator cd \<notin> set budget_code"
      and "separator cd \<notin> set admin_number"
      and "separator cd \<notin> set pass_number"
  shows "decode cd (encode cd (budget_code, admin_number, pass_number) K) K
           = Inr (budget_code, admin_number, pass_number)"
  using assms(3-5)
  by (simp add: decode_def encode_def assms(1,2) split_on_three del: append.simps)

theorem decode_encode_roundtrip_witness:
  "decode fixture_codec
     (encode fixture_codec (''aaa'', ''111111111'', ''6666666666666'') TESTKEY) TESTKEY
     = Inr (''aaa'', ''111111111'', ''6666666666666'') \<and>
   decode fixture_codec (encode fixture_codec ('''', ''111111111'', '''') TESTKEY) TESTKEY
     = Inr ('''', ''111111111'', '''')"
proof -
  have seal: "\<And>p. unseal fixture_codec TESTKEY (seal fixture_codec TESTKEY p) = Some p"
    by (simp add: fixture_codec_def)
  have url: "\<And>c. url_decode fixture_codec (url_encode fixture_codec c) = Some c"
    by (simp add: fixture_codec_def)
  have "separator fixture_codec \<notin> set ''aaa''" "separator fixture_codec \<notin> set ''111111111''"
    "separator fixture_codec \<notin> set ''6666666666666''" "separator fixture_codec \<notin> set ''''"
    by (simp_all add: fixture_codec_def)
  then show ?thesis
    using decode_encode_roundtrip [OF seal url, of "''aaa''" "''111111111''" "''6666666666666''"]
          decode_encode_roundtrip [OF seal url, of "''''" "''111111111''" "''''"]
    by simp
qed

end
